theory Spec2Isabelle
  imports Main "HOL-Library.Sublist"
begin

section \<open>Template rendering\<close>

text \<open>
  The deployment handler renders a template with
  \<^verbatim>\<open>for key, value in template_params.items():
      template_code = template_code.replace("<" + key + ">", value)\<close>
  Python's \<^verbatim>\<open>str.replace(old, new)\<close> scans from the left and replaces every
  non-overlapping occurrence of \<^verbatim>\<open>old\<close>; an empty \<^verbatim>\<open>old\<close> matches before every
  character and at the end. A string is a list of characters.
\<close>

function str_replace :: "string \<Rightarrow> string \<Rightarrow> string \<Rightarrow> string" where
  "str_replace s old new =
     (if old = [] then new @ concat (map (\<lambda>c. c # new) s)
      else if s = [] then []
      else if prefix old s then new @ str_replace (drop (length old) s) old new
      else hd s # str_replace (tl s) old new)"
  by pat_completeness auto
termination
  by (relation "measure (\<lambda>(s, old, new). length s)") auto

declare str_replace.simps [simp del]

text \<open>The substitution target \<^verbatim>\<open>"<" + key + ">"\<close>.\<close>

definition placeholder :: "string \<Rightarrow> string" where
  "placeholder key = ''<'' @ key @ ''>''"

text \<open>
  \<^verbatim>\<open>template_params\<close> is a dict from placeholder names to string values; the loop
  visits its items in the dict's iteration order, so it is an association list
  in that order.
\<close>

type_synonym template_params = "(string \<times> string) list"

fun render :: "string \<Rightarrow> template_params \<Rightarrow> string" where
  "render template_code [] = template_code"
| "render template_code ((key, val) # items) =
     render (str_replace template_code (placeholder key) val) items"

section \<open>Exceptions, collaborators and process state\<close>

text \<open>
  The handlers tell three kinds of exception apart: \<^verbatim>\<open>KeyError\<close>,
  pathvalidate's \<^verbatim>\<open>ValidationError\<close> and every other \<^verbatim>\<open>Exception\<close>. Each value
  carries \<^verbatim>\<open>str(exc)\<close>, the text the handlers put in the response.
\<close>

datatype exn = KeyError string | ValidationError string | Exception string

fun str_exc :: "exn \<Rightarrow> string" where
  "str_exc (KeyError m) = m"
| "str_exc (ValidationError m) = m"
| "str_exc (Exception m) = m"

text \<open>
  Reading an attribute of \<^verbatim>\<open>None\<close> raises an \<^verbatim>\<open>AttributeError\<close> with this text;
  \<open>CHR 0x27\<close> is the apostrophe.
\<close>

definition none_has_no_attribute :: "string \<Rightarrow> string" where
  "none_has_no_attribute attr =
     [CHR 0x27] @ ''NoneType'' @ [CHR 0x27] @ '' object has no attribute '' @
     [CHR 0x27] @ attr @ [CHR 0x27]"

text \<open>A loaded wallet account; the handlers only read its address.\<close>

record wallet_account =
  address :: string

text \<open>The class \<^verbatim>\<open>ActiveAccount\<close>; both attributes start as \<^verbatim>\<open>None\<close>.\<close>

record ActiveAccount =
  account :: "wallet_account option"
  account_name :: "string option"

definition set_account :: "wallet_account \<Rightarrow> string \<Rightarrow> ActiveAccount \<Rightarrow> ActiveAccount" where
  "set_account acc name self = self\<lparr>account := Some acc, account_name := Some name\<rparr>"

text \<open>
  The objects of the chain toolkit. Their methods are calls into the toolkit, so
  each object carries the outcome of each call: a value, or the exception raised.
\<close>

record tx_receipt =
  txid :: string
  status :: string

record method_object =
  transact :: "string list \<Rightarrow> wallet_account option \<Rightarrow> exn + tx_receipt"

record deployed_contract =
  bytecode :: string
  deployed_address :: string
  signatures :: "string \<rightharpoonup> string"
  get_method_object :: "string \<Rightarrow> method_object option"

record contract_container =
  abi :: string
  get_verification_info :: "exn + string"
  deploy :: "wallet_account option \<Rightarrow> bool \<Rightarrow> exn + deployed_contract"
  at_address :: "string \<Rightarrow> exn + deployed_contract"

type_synonym project = "string \<rightharpoonup> contract_container"

text \<open>
  Every call that leaves the process is recorded, in order: file system, project
  handle, chain submissions, network.
\<close>

datatype call =
    PathExists string
  | FileRead string
  | FileWrite string string
  | ProjectLoad
  | ProjectClose
  | ContainerDeploy string "wallet_account option" bool
  | MethodTransact string "string list" "wallet_account option"
  | NetworkDisconnect
  | NetworkConnect string


text \<open>
  The state the handlers share: the global \<^verbatim>\<open>ACTIVEACCOUNT\<close>, the files under the
  template and contract folders, the network the toolkit is connected to, and the
  record of calls.
\<close>

record world =
  ACTIVEACCOUNT :: ActiveAccount
  files :: "string \<rightharpoonup> string"
  active_network :: "string option"
  calls :: "call list"

definition record_call :: "call \<Rightarrow> world \<Rightarrow> world" where
  "record_call c w = w\<lparr>calls := calls w @ [c]\<rparr>"

text \<open>
  What the surroundings answer during one request: \<^verbatim>\<open>validate_filename\<close> returns the
  message of the \<^verbatim>\<open>ValidationError\<close> it raises, if any; opening a file, loading the
  project, loading an account and connecting to a network may raise; \<^verbatim>\<open>py_repr\<close>
  is Python's \<^verbatim>\<open>repr\<close> on strings, which is \<^verbatim>\<open>str(exc)\<close> of a \<^verbatim>\<open>KeyError\<close>.
  \<^verbatim>\<open>project.load\<close> compiles the contract folder, so its answer depends on the
  files.
\<close>

record env =
  validate_filename :: "string \<Rightarrow> string option"
  read_fails :: "string \<Rightarrow> exn option"
  write_fails :: "string \<Rightarrow> exn option"
  project_load :: "(string \<rightharpoonup> string) \<Rightarrow> exn + project"
  accounts_load :: "string \<Rightarrow> string \<Rightarrow> exn + wallet_account"
  connect_fails :: "string \<Rightarrow> exn option"
  py_repr :: "string \<Rightarrow> string"

text \<open>The JSON bodies the handlers return.\<close>

record deploy_data =
  d_abi :: string
  d_contract :: string
  d_network :: "string option"
  d_verification_info :: string
  d_deployed_bytecode :: string
  d_contract_name :: string
  d_contract_params :: template_params
  d_contract_code :: string
  d_contract_address :: string
  d_deployer_address :: string

datatype response =
    ErrorBody string
  | DeployBody deploy_data
  | InteractBody string string
  | NetworkBody "string option"
  | AccountBody string string

text \<open>
  A handler returns a body, or lets an exception escape to the web framework:
  \<open>Inl\<close> is the escaped exception.
\<close>

type_synonym outcome = "(exn + response) \<times> world"

section \<open>Accounts and network\<close>

definition set_account_active :: "env \<Rightarrow> string \<Rightarrow> string \<Rightarrow> world \<Rightarrow> outcome" where
  "set_account_active e name pass w =
     (case accounts_load e name pass of
        Inl exc \<Rightarrow> (Inr (ErrorBody (str_exc exc)), w)
      | Inr acc \<Rightarrow>
          (Inr (AccountBody name (address acc)),
           w\<lparr>ACTIVEACCOUNT := set_account acc name (ACTIVEACCOUNT w)\<rparr>))"





section \<open>Deployment\<close>

definition endswith :: "string \<Rightarrow> string \<Rightarrow> bool" where
  "endswith s suf = suffix suf s"

text \<open>
  Lines 353 and 354:
  \<^verbatim>\<open>if not template_name.endswith(".sol"): template_name += ".sol"\<close>
\<close>

definition sol_file :: "string \<Rightarrow> string" where
  "sol_file template_name =
     (if \<not> endswith template_name ''.sol'' then template_name @ ''.sol'' else template_name)"

text \<open>\<^verbatim>\<open>os.path.join(a, b)\<close> on two components.\<close>

definition path_join :: "string \<Rightarrow> string \<Rightarrow> string" where
  "path_join a b =
     (if prefix ''/'' b then b
      else if a = [] \<or> endswith a ''/'' then a @ b
      else a @ ''/'' @ b)"

text \<open>
  Lines 374 to 393, the body of the inner \<^verbatim>\<open>try\<close>: the deploy call, then the
  response dict, whose last entry reads \<^verbatim>\<open>ACTIVEACCOUNT.account.address\<close>, then
  \<^verbatim>\<open>contract_proj.close()\<close>.
\<close>

definition deploy_submit ::
  "contract_container \<Rightarrow> string \<Rightarrow> template_params \<Rightarrow> string \<Rightarrow> bool \<Rightarrow> world \<Rightarrow> outcome" where
  "deploy_submit container cname params template_code publish_source w =
     (let sender = account (ACTIVEACCOUNT w);
          w1 = record_call (ContainerDeploy cname sender publish_source) w in
      case deploy container sender publish_source of
        Inl exc \<Rightarrow> (Inl exc, w1)
      | Inr deployed \<Rightarrow>
          (case get_verification_info container of
             Inl exc \<Rightarrow> (Inl exc, w1)
           | Inr info \<Rightarrow>
               (case sender of
                  None \<Rightarrow>
                    (Inl (Exception (none_has_no_attribute ''address'')), w1)
                | Some acc \<Rightarrow>
                    (Inr (DeployBody \<lparr>
                       d_abi = abi container,
                       d_contract = template_code,
                       d_network = active_network w1,
                       d_verification_info = info,
                       d_deployed_bytecode = bytecode deployed,
                       d_contract_name = cname,
                       d_contract_params = params,
                       d_contract_code = template_code,
                       d_contract_address = deployed_address deployed,
                       d_deployer_address = address acc\<rparr>),
                     record_call ProjectClose w1))))"

text \<open>The inner \<^verbatim>\<open>try\<close> with its \<^verbatim>\<open>except Exception\<close>, which closes the project.\<close>

definition deploy_guarded ::
  "contract_container \<Rightarrow> string \<Rightarrow> template_params \<Rightarrow> string \<Rightarrow> bool \<Rightarrow> world \<Rightarrow> outcome" where
  "deploy_guarded container cname params template_code publish_source w =
     (case deploy_submit container cname params template_code publish_source w of
        (Inl exc, w1) \<Rightarrow> (Inr (ErrorBody (str_exc exc)), record_call ProjectClose w1)
      | (Inr body, w1) \<Rightarrow> (Inr body, w1))"

text \<open>Lines 371 and 372: load the project and look the container up.\<close>

definition deploy_project ::
  "env \<Rightarrow> string \<Rightarrow> template_params \<Rightarrow> string \<Rightarrow> bool \<Rightarrow> world \<Rightarrow> outcome" where
  "deploy_project e cname params template_code publish_source w =
     (let w1 = record_call ProjectLoad w in
      case project_load e (files w) of
        Inl exc \<Rightarrow> (Inl exc, w1)
      | Inr contract_proj \<Rightarrow>
          (case contract_proj cname of
             None \<Rightarrow> (Inl (KeyError (py_repr e cname)), w1)
           | Some container \<Rightarrow>
               deploy_guarded container cname params template_code publish_source w1))"

text \<open>
  Lines 353 to 396, the body of the outer \<^verbatim>\<open>try\<close>: names, validation, paths, the
  existence test, reading and rendering the template, writing the contract file,
  then the project.
\<close>

definition deploy_body ::
  "env \<Rightarrow> string \<Rightarrow> template_params \<Rightarrow> string \<Rightarrow> bool \<Rightarrow> world \<Rightarrow> outcome" where
  "deploy_body e tname params cname publish_source w =
     (let template_name = sol_file tname;
          contract_file = cname @ ''.sol''
      in case validate_filename e template_name of
           Some m \<Rightarrow> (Inl (ValidationError m), w)
         | None \<Rightarrow>
      (case validate_filename e contract_file of
           Some m \<Rightarrow> (Inl (ValidationError m), w)
         | None \<Rightarrow>
      (let template_path = path_join ''../templates/'' template_name;
           contract_path = path_join ''../contracts/'' contract_file;
           w1 = record_call (PathExists template_path) w
       in case files w template_path of
            None \<Rightarrow> (Inr (ErrorBody (template_name @ '' template is not available!'')), w1)
          | Some content \<Rightarrow>
       (let w2 = record_call (FileRead template_path) w1
        in case read_fails e template_path of
             Some exc \<Rightarrow> (Inl exc, w2)
           | None \<Rightarrow>
        (let template_code = render content params;
             w3 = record_call (FileWrite contract_path template_code) w2
         in case write_fails e contract_path of
              Some exc \<Rightarrow> (Inl exc, w3)
            | None \<Rightarrow>
                deploy_project e cname params template_code publish_source
                  (w3\<lparr>files := (files w3)(contract_path \<mapsto> template_code)\<rparr>))))))"

text \<open>The three outer \<^verbatim>\<open>except\<close> clauses.\<close>

definition deploy_template_contract ::
  "env \<Rightarrow> string \<Rightarrow> template_params \<Rightarrow> string \<Rightarrow> bool \<Rightarrow> world \<Rightarrow> outcome" where
  "deploy_template_contract e tname params cname publish_source w =
     (case deploy_body e tname params cname publish_source w of
        (Inl (KeyError m), w1) \<Rightarrow>
          (Inr (ErrorBody (''Please make sure that the contract name and token name are same! KeyError: '' @ m)), w1)
      | (Inl (ValidationError m), w1) \<Rightarrow> (Inr (ErrorBody m), w1)
      | (Inl (Exception m), w1) \<Rightarrow> (Inr (ErrorBody m), w1)
      | (Inr body, w1) \<Rightarrow> (Inr body, w1))"

section \<open>Interaction\<close>

text \<open>Lines 444 to 456, the body of the \<^verbatim>\<open>try\<close>.\<close>

definition interact_body ::
  "env \<Rightarrow> string \<Rightarrow> string \<Rightarrow> string \<Rightarrow> string list \<Rightarrow> world \<Rightarrow> outcome" where
  "interact_body e cname caddress cmethod method_args w =
     (let w1 = record_call ProjectLoad w in
      case project_load e (files w) of
        Inl exc \<Rightarrow> (Inl exc, w1)
      | Inr contract_proj \<Rightarrow>
      (case contract_proj cname of
         None \<Rightarrow> (Inl (KeyError (py_repr e cname)), w1)
       | Some container \<Rightarrow>
      (case at_address container caddress of
         Inl exc \<Rightarrow> (Inl exc, w1)
       | Inr deployed \<Rightarrow>
      (case signatures deployed cmethod of
         None \<Rightarrow> (Inl (KeyError (py_repr e cmethod)), w1)
       | Some sig \<Rightarrow>
      (case get_method_object deployed sig of
         None \<Rightarrow>
           (Inl (Exception (none_has_no_attribute ''transact'')), w1)
       | Some func \<Rightarrow>
      (let sender = account (ACTIVEACCOUNT w1);
           w2 = record_call (MethodTransact cmethod method_args sender) w1
       in case transact func method_args sender of
            Inl exc \<Rightarrow> (Inl exc, w2)
          | Inr func_tx \<Rightarrow>
              (Inr (InteractBody (txid func_tx) (status func_tx)),
               record_call ProjectClose w2)))))))"

definition interact_contract ::
  "env \<Rightarrow> string \<Rightarrow> string \<Rightarrow> string \<Rightarrow> string list \<Rightarrow> world \<Rightarrow> outcome" where
  "interact_contract e cname caddress cmethod method_args w =
     (case interact_body e cname caddress cmethod method_args w of
        (Inl exc, w1) \<Rightarrow> (Inr (ErrorBody (str_exc exc)), w1)
      | (Inr body, w1) \<Rightarrow> (Inr body, w1))"

section \<open>Conditions on rendering inputs\<close>

text \<open>
  Conditions on rendering inputs. A string is plain when it holds neither angle
  bracket. \<open>has_angle_pattern\<close> finds a \<^verbatim>\<open><\<close> with a \<^verbatim>\<open>>\<close> somewhere after it.
  \<open>values_inert\<close> says that every value is plain and occurs inside no key of the
  mapping, so in particular no value is empty.
\<close>

definition plain :: "string \<Rightarrow> bool" where
  "plain s = (CHR ''<'' \<notin> set s \<and> CHR ''>'' \<notin> set s)"

fun has_angle_pattern :: "string \<Rightarrow> bool" where
  "has_angle_pattern [] = False"
| "has_angle_pattern (c # cs) = ((c = CHR ''<'' \<and> CHR ''>'' \<in> set cs) \<or> has_angle_pattern cs)"

definition values_inert :: "template_params \<Rightarrow> bool" where
  "values_inert ps =
     (\<forall>(k, v)\<in>set ps. plain v \<and> (\<forall>k'\<in>fst ` set ps. \<not> sublist v k'))"

section \<open>An example environment\<close>

text \<open>
  One concrete environment, for evaluating the handlers. The toolkit refuses a
  transaction without a sender. The project holds a contract \<open>n\<close> when one of three
  files of the contract folder starts with \<^verbatim>\<open>contract n\<close>. The template folder
  holds one template, \<^verbatim>\<open>T.sol\<close>.
\<close>

definition example_account :: wallet_account where
  "example_account = \<lparr>address = ''0xA11CE''\<rparr>"

definition example_method :: method_object where
  "example_method = \<lparr>transact = (\<lambda>args sender.
     case sender of
       None \<Rightarrow> Inl (Exception ''transaction parameters must include a from field'')
     | Some a \<Rightarrow> Inr \<lparr>txid = ''0x7a'', status = ''1''\<rparr>)\<rparr>"

definition example_deployed :: deployed_contract where
  "example_deployed = \<lparr>
     bytecode = ''0x6080'',
     deployed_address = ''0xC0DE'',
     signatures = [''setX'' \<mapsto> ''0x4018d9aa''],
     get_method_object = (\<lambda>sig. if sig = ''0x4018d9aa'' then Some example_method else None)\<rparr>"

definition example_container :: contract_container where
  "example_container = \<lparr>
     abi = ''[]'',
     get_verification_info = Inr ''{}'',
     deploy = (\<lambda>sender publish.
       case sender of
         None \<Rightarrow> Inl (Exception ''transaction parameters must include a from field'')
       | Some a \<Rightarrow> Inr example_deployed),
     at_address = (\<lambda>a. Inr example_deployed)\<rparr>"

definition example_declares :: "(string \<rightharpoonup> string) \<Rightarrow> string \<Rightarrow> bool" where
  "example_declares fs n =
     (\<exists>p\<in>set [''../contracts/Foo.sol'', ''../contracts/Bar.sol'', ''../contracts/Baz.sol''].
        case fs p of None \<Rightarrow> False | Some src \<Rightarrow> prefix (''contract '' @ n @ '' '') src)"

definition example_env :: env where
  "example_env = \<lparr>
     validate_filename = (\<lambda>n. if CHR ''/'' \<in> set n then Some ''invalid characters found'' else None),
     read_fails = (\<lambda>p. None),
     write_fails = (\<lambda>p. None),
     project_load = (\<lambda>fs. Inr (\<lambda>n. if example_declares fs n then Some example_container else None)),
     accounts_load = (\<lambda>n p. if n = ''alice'' \<and> p = ''secret'' then Inr example_account
                              else Inl (Exception ''account could not be loaded'')),
     connect_fails = (\<lambda>n. if n \<in> set [''development'', ''mainnet''] then None
                            else Some (Exception ''network is not defined'')),
     py_repr = (\<lambda>s. [CHR 0x27] @ s @ [CHR 0x27])\<rparr>"

definition example_world :: world where
  "example_world = \<lparr>
     ACTIVEACCOUNT = \<lparr>account = None, account_name = None\<rparr>,
     files = [''../templates/T.sol'' \<mapsto> ''contract <NAME> { uint x = <VAL>; }''],
     active_network = None,
     calls = []\<rparr>"

definition example_world_signed :: world where
  "example_world_signed = example_world\<lparr>ACTIVEACCOUNT :=
     \<lparr>account = Some example_account, account_name = Some ''alice''\<rparr>\<rparr>"


definition example_world_built :: world where
  "example_world_built = example_world\<lparr>files :=
     (files example_world)(''../contracts/Foo.sol'' \<mapsto> ''contract Foo { uint x = 5; }'')\<rparr>"

definition example_params :: template_params where
  "example_params = [(''NAME'', ''Foo''), (''VAL'', ''5'')]"

section \<open>Properties of rendering\<close>

text \<open>
  \<open>str_replace\<close> with a non-empty target: a match at the front is replaced and the
  scan goes on behind it, any other character is copied.
\<close>

lemma str_replace_Nil: "old \<noteq> [] \<Longrightarrow> str_replace [] old new = []"
  by (simp add: str_replace.simps)

lemma str_replace_match:
  "old \<noteq> [] \<Longrightarrow> prefix old s \<Longrightarrow>
   str_replace s old new = new @ str_replace (drop (length old) s) old new"
  by (subst str_replace.simps) auto

lemma str_replace_skip:
  "old \<noteq> [] \<Longrightarrow> \<not> prefix old (c # cs) \<Longrightarrow>
   str_replace (c # cs) old new = c # str_replace cs old new"
  by (subst str_replace.simps) simp


lemma sublist_drop_prefix: "prefix q (drop i t) \<Longrightarrow> sublist q t"
  by (metis sublist_altdef' suffix_drop)


text \<open>
  The leftmost occurrence is replaced, and the scan goes on behind it. A target
  that does not occur leaves the string as it is.
\<close>

lemma str_replace_absent:
  "old \<noteq> [] \<Longrightarrow> \<not> sublist old s \<Longrightarrow> str_replace s old new = s"
proof (induction s)
  case Nil
  then show ?case by (simp add: str_replace_Nil)
next
  case (Cons c cs)
  then show ?case by (simp add: str_replace_skip sublist_Cons_right)
qed




lemma placeholder_nonempty: "placeholder k \<noteq> []"
  by (simp add: placeholder_def)

lemma render_absent:
  "(\<forall>k\<in>fst ` set ps. \<not> sublist (placeholder k) t) \<Longrightarrow> render t ps = t"
proof (induction ps)
  case Nil
  then show ?case by simp
next
  case (Cons p ps)
  obtain k v where p: "p = (k, v)" by (cases p)
  with Cons.prems have "\<not> sublist (placeholder k) t" by simp
  then have "str_replace t (placeholder k) v = t"
    by (simp add: str_replace_absent placeholder_nonempty)
  with Cons p show ?case by simp
qed








text \<open>
  Claim C6 says that rendering twice equals rendering once whenever the values
  hold no angle-bracket pattern. It fails for the template \<^verbatim>\<open><<A>>\<close> and the
  mapping of \<^verbatim>\<open>A\<close> to \<^verbatim>\<open>A\<close>: the value holds no angle bracket at all, the first
  rendering gives \<^verbatim>\<open><A>\<close>, the second gives \<^verbatim>\<open>A\<close>.
\<close>

theorem render_not_idempotent:
  "\<not> has_angle_pattern ''A''
 \<and> render ''<<A>>'' [(''A'', ''A'')] = ''<A>''
 \<and> render (render ''<<A>>'' [(''A'', ''A'')]) [(''A'', ''A'')] = ''A''
 \<and> render (render ''<<A>>'' [(''A'', ''A'')]) [(''A'', ''A'')] \<noteq> render ''<<A>>'' [(''A'', ''A'')]"
  by code_simp

text \<open>
  Replacing a placeholder by a plain value that lies inside no key creates no
  placeholder: an occurrence of a placeholder in the result is an occurrence in
  the input, at a position where the replaced target does not start.
\<close>

lemma sublist_after_plain:
  "plain v \<Longrightarrow> sublist (placeholder k) (v @ r) \<Longrightarrow> sublist (placeholder k) r"
proof (induction v)
  case Nil
  then show ?case by simp
next
  case (Cons x v)
  from Cons.prems(1) have x: "x \<noteq> CHR ''<''" and pv: "plain v"
    by (auto simp: plain_def)
  from Cons.prems(2) have "prefix (placeholder k) (x # v @ r) \<or> sublist (placeholder k) (v @ r)"
    by (simp add: sublist_Cons_right)
  moreover have "\<not> prefix (placeholder k) (x # v @ r)"
    using x by (simp add: placeholder_def)
  ultimately show ?case using Cons.IH pv by blast
qed

lemma plain_not_before_close:
  assumes "plain v" "prefix (w @ ''>'') (v @ r)"
  shows "prefix v w"
proof -
  from assms(2) consider "prefix (w @ ''>'') v" | us where "w @ ''>'' = v @ us"
    by (auto simp: prefix_append)
  then show ?thesis
  proof cases
    case 1
    then have "set (w @ ''>'') \<subseteq> set v" by (rule set_mono_prefix)
    with assms(1) show ?thesis by (auto simp: plain_def)
  next
    case 2
    then have "prefix v (w @ ''>'')" by (metis prefixI)
    then have "v = w @ ''>'' \<or> prefix v w" by simp
    with assms(1) show ?thesis by (auto simp: plain_def)
  qed
qed

lemma close_prefix_reflects:
  assumes old: "old \<noteq> []" and pv: "plain v" and nk: "\<not> sublist v k"
  shows "suffix w k \<Longrightarrow> prefix (w @ ''>'') (str_replace s old v) \<Longrightarrow> prefix (w @ ''>'') s"
proof (induction s arbitrary: w)
  case Nil
  with old show ?case by (simp add: str_replace_Nil)
next
  case (Cons c cs)
  show ?case
  proof (cases "prefix old (c # cs)")
    case True
    with old have "str_replace (c # cs) old v = v @ str_replace (drop (length old) (c # cs)) old v"
      by (rule str_replace_match)
    with Cons.prems(2) pv have "prefix v w"
      using plain_not_before_close by metis
    then have "sublist v w" by simp
    moreover from Cons.prems(1) have "sublist w k" by simp
    ultimately have "sublist v k" by (rule sublist_order.order_trans)
    with nk show ?thesis by simp
  next
    case False
    with old have r: "str_replace (c # cs) old v = c # str_replace cs old v"
      by (simp add: str_replace_skip)
    show ?thesis
    proof (cases w)
      case Nil
      with Cons.prems r show ?thesis by simp
    next
      case (Cons x w')
      with Cons.prems r have xc: "x = c" and p: "prefix (w' @ ''>'') (str_replace cs old v)"
        by simp_all
      from Cons Cons.prems have "suffix w' k"
        by (metis suffix_ConsD)
      with Cons.IH p have "prefix (w' @ ''>'') cs"
        by blast
      with xc Cons show ?thesis by simp
    qed
  qed
qed

lemma placeholder_prefix_reflects:
  assumes old: "old \<noteq> []" and pv: "plain v" and nk: "\<not> sublist v k"
    and p: "prefix (placeholder k) (str_replace s old v)"
  shows "prefix (placeholder k) s \<and> \<not> prefix old s"
proof (cases s)
  case Nil
  with p old show ?thesis by (simp add: str_replace_Nil placeholder_def)
next
  case (Cons c cs)
  from nk have vne: "v \<noteq> []" by auto
  show ?thesis
  proof (cases "prefix old s")
    case True
    with old have "str_replace s old v = v @ str_replace (drop (length old) s) old v"
      by (rule str_replace_match)
    with p vne have "hd v = CHR ''<''"
      by (cases v) (auto simp: placeholder_def)
    with vne pv show ?thesis by (cases v) (auto simp: plain_def)
  next
    case False
    with old Cons have r: "str_replace s old v = c # str_replace cs old v"
      by (simp add: str_replace_skip)
    with p have c: "c = CHR ''<''" and p': "prefix (k @ ''>'') (str_replace cs old v)"
      by (simp_all add: placeholder_def)
    have "suffix k k" by simp
    from close_prefix_reflects[OF old pv nk this p'] have "prefix (k @ ''>'') cs" .
    with c Cons False show ?thesis by (simp add: placeholder_def)
  qed
qed

lemma placeholder_occurrence_reflects:
  assumes old: "old \<noteq> []" and pv: "plain v" and nk: "\<not> sublist v k"
  shows "sublist (placeholder k) (str_replace s old v) \<Longrightarrow>
         \<exists>i. prefix (placeholder k) (drop i s) \<and> \<not> prefix old (drop i s)"
proof (induction "length s" arbitrary: s rule: less_induct)
  case less
  show ?case
  proof (cases s)
    case Nil
    with less.prems old show ?thesis by (simp add: str_replace_Nil placeholder_def)
  next
    case (Cons c cs)
    show ?thesis
    proof (cases "prefix old s")
      case True
      let ?s' = "drop (length old) s"
      from old True have "str_replace s old v = v @ str_replace ?s' old v"
        by (rule str_replace_match)
      with less.prems pv have "sublist (placeholder k) (str_replace ?s' old v)"
        using sublist_after_plain by metis
      moreover have "length ?s' < length s"
        using old Cons by simp
      ultimately obtain i where "prefix (placeholder k) (drop i ?s')" "\<not> prefix old (drop i ?s')"
        using less.hyps by blast
      then have "prefix (placeholder k) (drop (i + length old) s) \<and> \<not> prefix old (drop (i + length old) s)"
        by simp
      then show ?thesis by blast
    next
      case False
      with old Cons have r: "str_replace s old v = c # str_replace cs old v"
        by (simp add: str_replace_skip)
      with less.prems have "prefix (placeholder k) (str_replace s old v) \<or>
          sublist (placeholder k) (str_replace cs old v)"
        by (simp add: sublist_Cons_right)
      then show ?thesis
      proof
        assume "prefix (placeholder k) (str_replace s old v)"
        from placeholder_prefix_reflects[OF old pv nk this]
        have "prefix (placeholder k) (drop 0 s) \<and> \<not> prefix old (drop 0 s)" by simp
        then show ?thesis by blast
      next
        assume "sublist (placeholder k) (str_replace cs old v)"
        moreover have "length cs < length s" using Cons by simp
        ultimately obtain i where "prefix (placeholder k) (drop i cs)" "\<not> prefix old (drop i cs)"
          using less.hyps by blast
        then have "prefix (placeholder k) (drop (Suc i) s) \<and> \<not> prefix old (drop (Suc i) s)"
          using Cons by simp
        then show ?thesis by blast
      qed
    qed
  qed
qed

lemma str_replace_no_new_placeholder:
  assumes "old \<noteq> []" "plain v" "\<not> sublist v k"
    and "old = placeholder k \<or> \<not> sublist (placeholder k) s"
  shows "\<not> sublist (placeholder k) (str_replace s old v)"
proof
  assume "sublist (placeholder k) (str_replace s old v)"
  from placeholder_occurrence_reflects[OF assms(1-3) this]
  obtain i where i: "prefix (placeholder k) (drop i s)" "\<not> prefix old (drop i s)"
    by blast
  from i(1) have "sublist (placeholder k) s" by (rule sublist_drop_prefix)
  with assms(4) i show False by auto
qed

lemma render_no_placeholder:
  assumes "\<forall>(k, v)\<in>set ps. plain v \<and> \<not> sublist v k'"
    and "k' \<in> fst ` set ps \<or> \<not> sublist (placeholder k') t"
  shows "\<not> sublist (placeholder k') (render t ps)"
  using assms
proof (induction ps arbitrary: t)
  case Nil
  then show ?case by simp
next
  case (Cons p ps)
  obtain k v where p: "p = (k, v)" by (cases p)
  from Cons.prems(1) p have v: "plain v" "\<not> sublist v k'"
    and rest: "\<forall>(k, v)\<in>set ps. plain v \<and> \<not> sublist v k'"
    by auto
  let ?t' = "str_replace t (placeholder k) v"
  have "k' \<in> fst ` set ps \<or> \<not> sublist (placeholder k') ?t'"
  proof (cases "k' \<in> fst ` set ps")
    case True
    then show ?thesis by blast
  next
    case False
    with Cons.prems(2) p have "placeholder k = placeholder k' \<or> \<not> sublist (placeholder k') t"
      by auto
    with str_replace_no_new_placeholder[OF placeholder_nonempty v] show ?thesis by blast
  qed
  with Cons.IH rest have "\<not> sublist (placeholder k') (render ?t' ps)" by blast
  with p show ?case by simp
qed

text \<open>
  Claim C6, amended. When every value is plain and occurs inside no key of the
  mapping, rendering is idempotent, for every template.
\<close>

theorem render_idempotent_inert:
  assumes "values_inert ps"
  shows "render (render t ps) ps = render t ps"
proof (rule render_absent, rule ballI)
  fix k' assume k': "k' \<in> fst ` set ps"
  from assms have "\<forall>(k, v)\<in>set ps. plain v \<and> \<not> sublist v k'"
    using k' by (auto simp: values_inert_def)
  then show "\<not> sublist (placeholder k') (render t ps)"
    using k' by (intro render_no_placeholder) blast+
qed

theorem render_idempotent_inert_witness:
  "values_inert [(''NAME'', ''Foo''), (''VAL'', ''5'')]
 \<and> render (render ''contract <NAME> { uint x = <VAL>; }'' [(''NAME'', ''Foo''), (''VAL'', ''5'')])
      [(''NAME'', ''Foo''), (''VAL'', ''5'')]
    = render ''contract <NAME> { uint x = <VAL>; }'' [(''NAME'', ''Foo''), (''VAL'', ''5'')]"
proof -
  have h: "values_inert [(''NAME'', ''Foo''), (''VAL'', ''5'')]" by code_simp
  from render_idempotent_inert[OF h] h show ?thesis by blast
qed

section \<open>Properties of the handlers\<close>







subsection \<open>Accounts and network\<close>

text \<open>
  Claim C10. When loading the named account fails, \<open>set_account_active\<close> returns
  the error body with the message of the failure and leaves the whole state, so
  also the active account, as it was.
\<close>

theorem set_account_active_failure_keeps_identity:
  assumes "accounts_load e name pass = Inl exc"
  shows "set_account_active e name pass w = (Inr (ErrorBody (str_exc exc)), w)"
  using assms by (simp add: set_account_active_def)

theorem set_account_active_failure_keeps_identity_witness:
  "accounts_load example_env ''bob'' ''guess'' = Inl (Exception ''account could not be loaded'')
 \<and> set_account_active example_env ''bob'' ''guess'' example_world_signed =
     (Inr (ErrorBody ''account could not be loaded''), example_world_signed)
 \<and> account (ACTIVEACCOUNT example_world_signed) = Some example_account"
proof -
  have h: "accounts_load example_env ''bob'' ''guess'' = Inl (Exception ''account could not be loaded'')"
    by (simp add: example_env_def)
  from set_account_active_failure_keeps_identity[OF h, of example_world_signed] h
  show ?thesis by (simp add: example_world_signed_def)
qed



subsection \<open>Deployment\<close>

text \<open>
  Claim C9. Both file names are validated before anything else happens. When
  \<open>validate_filename\<close> rejects the template file name or the contract file name,
  the result is the error body with the validator's message and the state is
  unchanged: no call was made, no file was read or written, nothing was
  submitted.
\<close>

theorem deploy_invalid_name_no_io:
  assumes "validate_filename e (sol_file tname) \<noteq> None \<or>
           validate_filename e (cname @ ''.sol'') \<noteq> None"
  shows "\<exists>m. deploy_template_contract e tname params cname publish w = (Inr (ErrorBody m), w)
           \<and> (validate_filename e (sol_file tname) = Some m \<or>
              validate_filename e (cname @ ''.sol'') = Some m)"
  using assms
  by (auto simp: deploy_template_contract_def deploy_body_def Let_def split: option.splits)

theorem deploy_invalid_name_no_io_witness:
  "validate_filename example_env (sol_file ''../T'') \<noteq> None
 \<and> deploy_template_contract example_env ''../T'' example_params ''Foo'' True example_world =
     (Inr (ErrorBody ''invalid characters found''), example_world)"
proof -
  have h: "validate_filename example_env (sol_file ''../T'') = Some ''invalid characters found''"
    by code_simp
  have h': "validate_filename example_env (''Foo'' @ ''.sol'') = None"
    by code_simp
  from h have "validate_filename example_env (sol_file ''../T'') \<noteq> None \<or>
      validate_filename example_env (''Foo'' @ ''.sol'') \<noteq> None" by simp
  from deploy_invalid_name_no_io[OF this, of example_params True example_world] h h'
  show ?thesis by auto
qed






text \<open>
  Claim C2 says that a loaded project is closed on every exit path. The inner
  handler of the deployment closes it, and so does the success path. The lookup
  of the container stands between the load and the inner handler, so a failed
  lookup leaves the project open; the interaction handler closes the project on
  success only. At the example both requests load the project and neither
  closes it.
\<close>

theorem deploy_leaks_project_on_lookup_failure:
  "calls (snd (deploy_template_contract example_env ''T'' example_params ''Bar'' True example_world_signed)) =
     [PathExists ''../templates/T.sol'', FileRead ''../templates/T.sol'',
      FileWrite ''../contracts/Bar.sol'' ''contract Foo { uint x = 5; }'', ProjectLoad]
 \<and> calls (snd (interact_contract example_env ''Foo'' ''0xC0DE'' ''missing'' [] example_world_built)) =
     [ProjectLoad]"
  by code_simp

subsection \<open>Requests without a signing identity\<close>







subsection \<open>Failures and responses\<close>









end
